theory Spec2Isabelle
  imports Main "HOL-Library.Sublist"
begin

section \<open>Python values and text\<close>

text \<open>
  The pipeline of \<^verbatim>\<open>pipe.py\<close> works on dictionaries whose values come from
  \<^verbatim>\<open>json.loads\<close> and from \<^verbatim>\<open>row.to_dict()\<close> of a pandas data frame. The values
  modelled are \<^verbatim>\<open>None\<close>, booleans, integers, the float \<^verbatim>\<open>nan\<close> (what pandas
  puts in an empty CSV cell) and strings. Other floats, lists and nested objects are not
  modelled.

  A Python \<^verbatim>\<open>str\<close> is a list of characters, read as the code points U+0000 to
  U+00FF; white space and letter case are those of Python on that range.
\<close>

datatype pyval = PNone | PBool bool | PInt int | PNaN | PStr string

datatype py_error = TypeError | ValueError

definition isspace :: "char \<Rightarrow> bool" where
  "isspace c =
     (let n = (of_char c :: nat)
      in (9 \<le> n \<and> n \<le> 13) \<or> (28 \<le> n \<and> n \<le> 32) \<or> n = 133 \<or> n = 160)"

definition isupper :: "char \<Rightarrow> bool" where
  "isupper c =
     (let n = (of_char c :: nat)
      in (65 \<le> n \<and> n \<le> 90) \<or> (192 \<le> n \<and> n \<le> 214) \<or> (216 \<le> n \<and> n \<le> 222))"

text \<open>The lower-case letter is 32 code points above the upper-case one: bit 5 is set.\<close>

definition lower_char :: "char \<Rightarrow> char" where
  "lower_char c =
     (if isupper c
      then Char (digit0 c) (digit1 c) (digit2 c) (digit3 c) (digit4 c) True (digit6 c) (digit7 c)
      else c)"

definition lower :: "string \<Rightarrow> string" where
  "lower s = map lower_char s"

text \<open>\<^verbatim>\<open>s.strip()\<close>: leading and trailing white space removed.\<close>

definition strip :: "string \<Rightarrow> string" where
  "strip s = rev (dropWhile isspace (rev (dropWhile isspace s)))"

text \<open>\<^verbatim>\<open>sub in s\<close> on strings: \<open>sub\<close> occurs in \<open>s\<close> as a contiguous block.\<close>

fun str_contains :: "string \<Rightarrow> string \<Rightarrow> bool" where
  "str_contains sub [] = (sub = [])"
| "str_contains sub (c # cs) = (prefix sub (c # cs) \<or> str_contains sub cs)"

text \<open>\<^verbatim>\<open>s.replace("Z", "+00:00")\<close>: every \<^verbatim>\<open>Z\<close> is rewritten.\<close>

definition replace_Z :: "string \<Rightarrow> string" where
  "replace_Z s = concat (map (\<lambda>c. if c = CHR ''Z'' then ''+00:00'' else [c]) s)"

definition digit_char :: "nat \<Rightarrow> char" where
  "digit_char n = ''0123456789'' ! n"

definition is_digit :: "char \<Rightarrow> bool" where
  "is_digit c = (let n = (of_char c :: nat) in 48 \<le> n \<and> n \<le> 57)"

definition digit_val :: "char \<Rightarrow> nat" where
  "digit_val c = of_char c - 48"

fun show_nat :: "nat \<Rightarrow> string" where
  "show_nat n = (if n < 10 then [digit_char n] else show_nat (n div 10) @ [digit_char (n mod 10)])"

declare show_nat.simps [simp del]

text \<open>\<^verbatim>\<open>"%0wd" % n\<close> for a natural number.\<close>

definition zero_pad :: "nat \<Rightarrow> nat \<Rightarrow> string" where
  "zero_pad w n = replicate (w - length (show_nat n)) CHR ''0'' @ show_nat n"

text \<open>\<^verbatim>\<open>str(v)\<close>, which is also what an f-string writes for \<^verbatim>\<open>{v}\<close>.\<close>

fun py_str :: "pyval \<Rightarrow> string" where
  "py_str PNone = ''None''"
| "py_str (PBool b) = (if b then ''True'' else ''False'')"
| "py_str (PInt i) = (if i < 0 then CHR ''-'' # show_nat (nat (- i)) else show_nat (nat i))"
| "py_str PNaN = ''nan''"
| "py_str (PStr s) = s"

text \<open>Truth value of an object, as \<^verbatim>\<open>or\<close> tests it: \<^verbatim>\<open>nan\<close> is true.\<close>

fun truthy :: "pyval \<Rightarrow> bool" where
  "truthy PNone = False"
| "truthy (PBool b) = b"
| "truthy (PInt i) = (i \<noteq> 0)"
| "truthy PNaN = True"
| "truthy (PStr s) = (s \<noteq> [])"

definition py_or :: "pyval \<Rightarrow> pyval \<Rightarrow> pyval" where
  "py_or a b = (if truthy a then a else b)"

text \<open>\<^verbatim>\<open>pd.isna\<close> on a scalar.\<close>

fun isna :: "pyval \<Rightarrow> bool" where
  "isna PNone = True"
| "isna PNaN = True"
| "isna _ = False"

text \<open>
  A raw record is a dictionary with string keys, kept as an association list whose first
  binding of a key is the one that counts. \<^verbatim>\<open>record.get(k)\<close> gives \<^verbatim>\<open>None\<close> for a
  missing key, \<^verbatim>\<open>record.get(k, d)\<close> gives \<open>d\<close>; a key bound to \<^verbatim>\<open>None\<close> is
  present, and both give \<^verbatim>\<open>None\<close> for it.
\<close>

type_synonym raw_record = "(string \<times> pyval) list"

definition dict_get :: "raw_record \<Rightarrow> string \<Rightarrow> pyval" where
  "dict_get r k = (case map_of r k of None \<Rightarrow> PNone | Some v \<Rightarrow> v)"

definition dict_get_default :: "raw_record \<Rightarrow> string \<Rightarrow> pyval \<Rightarrow> pyval" where
  "dict_get_default r k d = (case map_of r k of None \<Rightarrow> d | Some v \<Rightarrow> v)"

section \<open>Calendar dates\<close>

text \<open>
  \<^verbatim>\<open>datetime.date\<close>: the proleptic Gregorian calendar, years 1 to 9999. The constructor
  checks the fields (\<open>check_date_fields\<close>), so a date object is always valid.
\<close>

record pydate =
  year :: nat
  month :: nat
  day :: nat

definition is_leap :: "nat \<Rightarrow> bool" where
  "is_leap y = (y mod 4 = 0 \<and> (y mod 100 \<noteq> 0 \<or> y mod 400 = 0))"

definition DAYS_IN_MONTH :: "nat list" where
  "DAYS_IN_MONTH = [0, 31, 28, 31, 30, 31, 30, 31, 31, 30, 31, 30, 31]"

definition DAYS_BEFORE_MONTH :: "nat list" where
  "DAYS_BEFORE_MONTH = [0, 0, 31, 59, 90, 120, 151, 181, 212, 243, 273, 304, 334]"

definition days_in_month :: "nat \<Rightarrow> nat \<Rightarrow> nat" where
  "days_in_month y m = (if m = 2 \<and> is_leap y then 29 else DAYS_IN_MONTH ! m)"

definition days_before_year :: "nat \<Rightarrow> int" where
  "days_before_year yr = (let y = int yr - 1 in y * 365 + y div 4 - y div 100 + y div 400)"

definition days_before_month :: "nat \<Rightarrow> nat \<Rightarrow> int" where
  "days_before_month y m = int (DAYS_BEFORE_MONTH ! m) + (if m > 2 \<and> is_leap y then 1 else 0)"

definition check_date_fields :: "nat \<Rightarrow> nat \<Rightarrow> nat \<Rightarrow> bool" where
  "check_date_fields y m d =
     (1 \<le> y \<and> y \<le> 9999 \<and> 1 \<le> m \<and> m \<le> 12 \<and> 1 \<le> d \<and> d \<le> days_in_month y m)"

definition valid_date :: "pydate \<Rightarrow> bool" where
  "valid_date dt = check_date_fields (year dt) (month dt) (day dt)"

definition toordinal :: "pydate \<Rightarrow> int" where
  "toordinal dt =
     days_before_year (year dt) + days_before_month (year dt) (month dt) + int (day dt)"

text \<open>\<^verbatim>\<open>d.isoformat()\<close> is \<^verbatim>\<open>"%04d-%02d-%02d" % (year, month, day)\<close>.\<close>

definition isoformat :: "pydate \<Rightarrow> string" where
  "isoformat dt =
     zero_pad 4 (year dt) @ ''-'' @ zero_pad 2 (month dt) @ ''-'' @ zero_pad 2 (day dt)"

section \<open>Parsing dates\<close>

text \<open>
  Both parsers of the standard library raise nothing but \<^verbatim>\<open>ValueError\<close> on a string;
  on strings they are modelled with \<open>None\<close> for that exception.
\<close>

definition parse_digits :: "string \<Rightarrow> nat option" where
  "parse_digits s =
     (if s \<noteq> [] \<and> list_all is_digit s
      then Some (foldl (\<lambda>a c. 10 * a + digit_val c) 0 s) else None)"

subsection \<open>\<^verbatim>\<open>datetime.strptime(s, "%Y-%m-%d")\<close>\<close>

text \<open>
  \<^verbatim>\<open>_strptime\<close> turns the format into the regular expression
  \<^verbatim>\<open>(?P<Y>\d\d\d\d)-(?P<m>1[0-2]|0[1-9]|[1-9])-(?P<d>3[0-1]|[1-2]\d|0[1-9]|[1-9]| [1-9])\<close>,
  matches it at the start of the string, raises when the match does not reach the end
  of the string, and builds a date from the three groups, which raises when the date
  does not exist. An alternation is tried from left to right; each function below lists
  the matches of one group in that order, with the text left after each.
\<close>

definition nonzero_digit :: "char \<Rightarrow> bool" where
  "nonzero_digit c = (is_digit c \<and> c \<noteq> CHR ''0'')"

definition match_month :: "string \<Rightarrow> (nat \<times> string) list" where
  "match_month s =
     (case s of a # b # r \<Rightarrow>
        (if a = CHR ''1'' \<and> b \<in> set ''012'' then [(10 + digit_val b, r)] else []) @
        (if a = CHR ''0'' \<and> nonzero_digit b then [(digit_val b, r)] else [])
      | _ \<Rightarrow> []) @
     (case s of a # r \<Rightarrow> (if nonzero_digit a then [(digit_val a, r)] else []) | _ \<Rightarrow> [])"

definition match_day :: "string \<Rightarrow> (nat \<times> string) list" where
  "match_day s =
     (case s of a # b # r \<Rightarrow>
        (if a = CHR ''3'' \<and> b \<in> set ''01'' then [(30 + digit_val b, r)] else []) @
        (if a \<in> set ''12'' \<and> is_digit b then [(10 * digit_val a + digit_val b, r)] else []) @
        (if a = CHR ''0'' \<and> nonzero_digit b then [(digit_val b, r)] else [])
      | _ \<Rightarrow> []) @
     (case s of a # r \<Rightarrow> (if nonzero_digit a then [(digit_val a, r)] else []) | _ \<Rightarrow> []) @
     (case s of a # b # r \<Rightarrow>
        (if a = CHR '' '' \<and> nonzero_digit b then [(digit_val b, r)] else [])
      | _ \<Rightarrow> [])"

definition expect_dash :: "string \<Rightarrow> string list" where
  "expect_dash s = (case s of c # r \<Rightarrow> (if c = CHR ''-'' then [r] else []) | [] \<Rightarrow> [])"

text \<open>All matches of the whole expression; the regex engine finds the head of the list.\<close>

definition strptime_matches :: "string \<Rightarrow> ((nat \<times> nat \<times> nat) \<times> string) list" where
  "strptime_matches s =
     (case parse_digits (take 4 s) of
        None \<Rightarrow> []
      | Some y \<Rightarrow>
          (if length s < 4 then []
           else concat (map (\<lambda>r0.
                  concat (map (\<lambda>(m, r1).
                    concat (map (\<lambda>r2.
                      map (\<lambda>(d, r3). ((y, m, d), r3)) (match_day r2))
                    (expect_dash r1)))
                  (match_month r0)))
                (expect_dash (drop 4 s)))))"

definition strptime_ymd :: "string \<Rightarrow> pydate option" where
  "strptime_ymd s =
     (case strptime_matches s of
        [] \<Rightarrow> None
      | ((y, m, d), rest) # _ \<Rightarrow>
          (if rest \<noteq> [] then None
           else if check_date_fields y m d then Some \<lparr>year = y, month = m, day = d\<rparr>
           else None))"

subsection \<open>\<^verbatim>\<open>datetime.fromisoformat(s).date()\<close>\<close>

text \<open>
  The grammar is the one documented for Python 3.7 to 3.10, the versions for which the
  source rewrites a trailing \<^verbatim>\<open>Z\<close>:
  \<^verbatim>\<open>YYYY-MM-DD[*HH[:MM[:SS[.fff[fff]]]][+HH:MM[:SS[.ffffff]]]]\<close>, where \<^verbatim>\<open>*\<close> is any
  single character. The functions follow \<^verbatim>\<open>_parse_isoformat_date\<close>,
  \<^verbatim>\<open>_parse_hh_mm_ss_ff\<close> and \<^verbatim>\<open>_parse_isoformat_time\<close> of the library; every field
  is made of decimal digits. Later versions read more shapes; the theorems below use
  only that a plain \<^verbatim>\<open>YYYY-MM-DD\<close> of an existing date is read as that date, and that
  whatever is read is an existing date.
\<close>

definition parse_isoformat_date :: "string \<Rightarrow> (nat \<times> nat \<times> nat) option" where
  "parse_isoformat_date dtstr =
     (if length dtstr \<noteq> 10 then None
      else case (parse_digits (take 4 dtstr), parse_digits (take 2 (drop 5 dtstr)),
                 parse_digits (drop 8 dtstr)) of
             (Some y, Some m, Some d) \<Rightarrow>
               (if dtstr ! 4 = CHR ''-'' \<and> dtstr ! 7 = CHR ''-'' then Some (y, m, d) else None)
           | _ \<Rightarrow> None)"

definition parse2 :: "string \<Rightarrow> (nat \<times> string) option" where
  "parse2 s =
     (if length s < 2 then None
      else case parse_digits (take 2 s) of None \<Rightarrow> None | Some n \<Rightarrow> Some (n, drop 2 s))"

definition parse_fraction :: "string \<Rightarrow> nat option" where
  "parse_fraction r =
     (case r of
        [] \<Rightarrow> Some 0
      | c # f \<Rightarrow>
          (if c \<noteq> CHR ''.'' then None
           else if length f = 3 then map_option (\<lambda>n. n * 1000) (parse_digits f)
           else if length f = 6 then parse_digits f
           else None))"

definition parse_hh_mm_ss_ff :: "string \<Rightarrow> (nat \<times> nat \<times> nat \<times> nat) option" where
  "parse_hh_mm_ss_ff tstr =
     (case parse2 tstr of
        None \<Rightarrow> None
      | Some (hh, r0) \<Rightarrow>
          (case r0 of
             [] \<Rightarrow> Some (hh, 0, 0, 0)
           | c0 # t0 \<Rightarrow>
               (if c0 \<noteq> CHR '':'' then None
                else case parse2 t0 of
                  None \<Rightarrow> None
                | Some (mm, r1) \<Rightarrow>
                    (case r1 of
                       [] \<Rightarrow> Some (hh, mm, 0, 0)
                     | c1 # t1 \<Rightarrow>
                         (if c1 \<noteq> CHR '':'' then None
                          else case parse2 t1 of
                            None \<Rightarrow> None
                          | Some (ss, r2) \<Rightarrow>
                              (case parse_fraction r2 of
                                 None \<Rightarrow> None
                               | Some us \<Rightarrow> Some (hh, mm, ss, us)))))))"

text \<open>\<^verbatim>\<open>s.find(c)\<close>: the index of the first \<open>c\<close>, if there is one.\<close>

fun str_find :: "char \<Rightarrow> string \<Rightarrow> nat option" where
  "str_find c [] = None"
| "str_find c (x # xs) = (if x = c then Some 0 else map_option Suc (str_find c xs))"

text \<open>
  A UTC offset is \<^verbatim>\<open>HH:MM\<close>, \<^verbatim>\<open>HH:MM:SS\<close> or \<^verbatim>\<open>HH:MM:SS.ffffff\<close> and must be
  shorter than 24 hours, or \<^verbatim>\<open>timezone\<close> raises.
\<close>

definition tz_ok :: "string \<Rightarrow> bool" where
  "tz_ok tzstr =
     (length tzstr \<in> {5, 8, 15} \<and>
      (case parse_hh_mm_ss_ff tzstr of
         None \<Rightarrow> False
       | Some (h, m, s, us) \<Rightarrow>
           (int h * 3600 + int m * 60 + int s) * 1000000 + int us < 86400 * 1000000))"

definition parse_isoformat_time :: "string \<Rightarrow> (nat \<times> nat \<times> nat \<times> nat) option" where
  "parse_isoformat_time tstr =
     (if length tstr < 2 then None
      else case (case str_find CHR ''-'' tstr of None \<Rightarrow> str_find CHR ''+'' tstr | Some i \<Rightarrow> Some i) of
             None \<Rightarrow> parse_hh_mm_ss_ff tstr
           | Some i \<Rightarrow> (if tz_ok (drop (Suc i) tstr) then parse_hh_mm_ss_ff (take i tstr) else None))"

definition check_time_fields :: "nat \<Rightarrow> nat \<Rightarrow> nat \<Rightarrow> nat \<Rightarrow> bool" where
  "check_time_fields hh mm ss us = (hh \<le> 23 \<and> mm \<le> 59 \<and> ss \<le> 59 \<and> us \<le> 999999)"

definition fromisoformat_str :: "string \<Rightarrow> pydate option" where
  "fromisoformat_str s =
     (case parse_isoformat_date (take 10 s) of
        None \<Rightarrow> None
      | Some (y, m, d) \<Rightarrow>
          (case (if length s \<le> 10 then Some (0, 0, 0, 0) else parse_isoformat_time (drop 11 s)) of
             None \<Rightarrow> None
           | Some (hh, mm, ss, us) \<Rightarrow>
               (if check_date_fields y m d \<and> check_time_fields hh mm ss us
                then Some \<lparr>year = y, month = m, day = d\<rparr> else None)))"

text \<open>On anything but a string, \<^verbatim>\<open>datetime.fromisoformat\<close> raises \<^verbatim>\<open>TypeError\<close>.\<close>

definition fromisoformat :: "pyval \<Rightarrow> py_error + pydate" where
  "fromisoformat v =
     (case v of
        PStr s \<Rightarrow> (case fromisoformat_str s of None \<Rightarrow> Inl ValueError | Some d \<Rightarrow> Inr d)
      | _ \<Rightarrow> Inl TypeError)"

section \<open>The normalizer\<close>

text \<open>
  A normalized claim is the dictionary \<^verbatim>\<open>normalize_record\<close> builds: seven fixed keys.
  The values are Python objects; \<^verbatim>\<open>source_system\<close> is the tag the caller passes.
\<close>

record claim =
  claim_id :: pyval
  patient_id :: pyval
  procedure_code :: pyval
  denial_reason :: pyval
  status :: pyval
  submitted_at :: pyval
  source_system :: string

text \<open>
  The \<^verbatim>\<open>try\<close> block of \<^verbatim>\<open>normalize_record\<close>: only a string is parsed, any other
  object is left as it is. The result is the new \<^verbatim>\<open>submitted_at\<close> and the warnings
  logged, the message built from the claim id and the raw text.
\<close>

definition normalize_date :: "string \<Rightarrow> pyval \<Rightarrow> pyval \<times> string list" where
  "normalize_date cid v =
     (case v of
        PStr s \<Rightarrow>
          (case (if CHR ''T'' \<in> set s then fromisoformat_str (replace_Z s) else strptime_ymd s) of
             Some d \<Rightarrow> (PStr (isoformat d), [])
           | None \<Rightarrow> (PNone, [''Invalid date format for claim '' @ cid @ '': '' @ s]))
      | _ \<Rightarrow> (v, []))"

definition normalize_record :: "raw_record \<Rightarrow> string \<Rightarrow> claim \<times> string list" where
  "normalize_record record source =
     (let cid = strip (py_str (py_or (dict_get record ''claim_id'')
                                     (dict_get_default record ''id'' (PStr ''unknown''))));
          pid = strip (py_str (py_or (dict_get record ''patient_id'')
                                     (dict_get_default record ''member'' (PStr ''unknown''))));
          code = strip (py_str (py_or (dict_get record ''procedure_code'') (PStr ''unknown'')));
          reason =
            (if \<not> isna (py_or (dict_get record ''denial_reason'') (dict_get record ''error_msg''))
             then strip (py_str (py_or (dict_get record ''denial_reason'')
                                       (dict_get_default record ''error_msg'' (PStr ''unknown''))))
             else ''unknown'');
          st =
            (if \<not> isna (dict_get record ''status'')
             then strip (lower (py_str (dict_get_default record ''status'' (PStr ''unknown''))))
             else ''unknown'');
          (sub, log) = normalize_date cid (py_or (dict_get record ''submitted_at'')
                                                 (dict_get record ''date''))
      in (\<lparr>claim_id = PStr cid, patient_id = PStr pid, procedure_code = PStr code,
           denial_reason = PStr reason, status = PStr st, submitted_at = sub,
           source_system = source\<rparr>, log))"

text \<open>The normalized claim as the dictionary it is, to be read by \<^verbatim>\<open>record.get\<close>.\<close>

definition claim_fields :: "claim \<Rightarrow> raw_record" where
  "claim_fields c =
     [(''claim_id'', claim_id c), (''patient_id'', patient_id c),
      (''procedure_code'', procedure_code c), (''denial_reason'', denial_reason c),
      (''status'', status c), (''submitted_at'', submitted_at c),
      (''source_system'', PStr (source_system c))]"

section \<open>The eligibility classifier\<close>

definition mock_llm_classifier :: "pyval \<Rightarrow> bool" where
  "mock_llm_classifier reason =
     (if reason = PNone \<or> isna reason then False
      else let reason_lower = lower (py_str reason)
           in if str_contains ''incorrect procedure'' reason_lower then False
              else if str_contains ''form incomplete'' reason_lower then True
              else if str_contains ''not billable'' reason_lower then False
              else False)"

definition retryable_reasons :: "pyval list" where
  "retryable_reasons = [PStr ''Missing modifier'', PStr ''Incorrect NPI'', PStr ''Prior auth required'']"

definition non_retryable_reasons :: "pyval list" where
  "non_retryable_reasons = [PStr ''Authorization expired'', PStr ''Incorrect provider type'']"

text \<open>
  Steps 5 to 7 of the cascade, the end of \<^verbatim>\<open>is_eligible_for_resubmission\<close> from the
  line \<^verbatim>\<open>reason = record["denial_reason"]\<close> on.
\<close>

definition reason_verdict :: "pyval \<Rightarrow> bool \<times> pyval" where
  "reason_verdict reason =
     (if reason \<in> set retryable_reasons then (True, reason)
      else if reason \<in> set non_retryable_reasons then (False, reason)
      else if mock_llm_classifier reason
           then (True, PStr (''Inferred retryable: '' @ py_str reason))
           else (False, PStr (''Inferred non-retryable: '' @ py_str reason)))"

text \<open>
  The reference date \<open>today\<close> is a date object. \<^verbatim>\<open>(today - submitted_date).days\<close> is
  the difference of the two ordinals.
\<close>

definition is_eligible_for_resubmission :: "claim \<Rightarrow> pydate \<Rightarrow> py_error + (bool \<times> pyval)" where
  "is_eligible_for_resubmission record today =
     (if status record \<noteq> PStr ''denied'' then Inr (False, PStr ''Status not denied'')
      else if patient_id record = PStr ''unknown'' then Inr (False, PStr ''Patient ID is null'')
      else if submitted_at record = PNone then Inr (False, PStr ''Invalid submitted date'')
      else case fromisoformat (submitted_at record) of
             Inl e \<Rightarrow> Inl e
           | Inr submitted_date \<Rightarrow>
               (let days_ago = toordinal today - toordinal submitted_date
                in if days_ago \<le> 7
                   then Inr (False, PStr ''Submitted less than or equal to 7 days ago'')
                   else Inr (reason_verdict (denial_reason record))))"

section \<open>Sample data\<close>

text \<open>The default reference date of \<^verbatim>\<open>is_eligible_for_resubmission\<close>.\<close>

definition today_default :: pydate where
  "today_default = \<lparr>year = 2025, month = 7, day = 30\<rparr>"

definition sample_claim :: "string \<Rightarrow> string \<Rightarrow> pyval \<Rightarrow> pyval \<Rightarrow> claim" where
  "sample_claim st pid sub reason =
     \<lparr>claim_id = PStr ''A123'', patient_id = PStr pid, procedure_code = PStr ''99213'',
      denial_reason = reason, status = PStr st, submitted_at = sub, source_system = ''alpha''\<rparr>"

text \<open>Records of the data embedded in \<^verbatim>\<open>pipe.py\<close>.\<close>

definition B987 :: raw_record where
  "B987 = [(''id'', PStr ''B987''), (''member'', PStr ''P010''), (''code'', PStr ''99213''),
           (''error_msg'', PStr ''Incorrect provider type''), (''date'', PStr ''2025-07-03T00:00:00''),
           (''status'', PStr ''denied'')]"

definition B990 :: raw_record where
  "B990 = [(''id'', PStr ''B990''), (''member'', PNone), (''code'', PStr ''99401''),
           (''error_msg'', PStr ''incorrect procedure''), (''date'', PStr ''2025-07-01T00:00:00''),
           (''status'', PStr ''denied'')]"

text \<open>An alpha row whose \<^verbatim>\<open>submitted_at\<close> cell is empty, as pandas reads it.\<close>

definition A_no_date :: raw_record where
  "A_no_date = [(''claim_id'', PStr ''A128''), (''patient_id'', PStr ''P005''),
                (''procedure_code'', PInt 99213), (''denial_reason'', PStr ''Missing modifier''),
                (''submitted_at'', PNaN), (''status'', PStr ''denied'')]"

definition A124 :: raw_record where
  "A124 = [(''claim_id'', PStr ''A124''), (''patient_id'', PStr ''P002''),
           (''procedure_code'', PInt 99214), (''denial_reason'', PStr ''Incorrect NPI''),
           (''submitted_at'', PStr ''2025-07-10''), (''status'', PStr ''denied'')]"

text \<open>A beta record whose \<^verbatim>\<open>id\<close> is a blank.\<close>

definition blank_id_record :: raw_record where
  "blank_id_record = [(''id'', PStr '' ''), (''member'', PStr ''P013''), (''code'', PStr ''99213''),
                      (''error_msg'', PStr ''Missing modifier''),
                      (''date'', PStr ''2025-07-10T00:00:00''), (''status'', PStr ''denied'')]"

section \<open>Evaluation\<close>

lemmas text_defs = lower_def lower_char_def isupper_def isspace_def strip_def is_digit_def
  digit_val_def digit_char_def nonzero_digit_def replace_Z_def

lemmas date_defs = is_leap_def DAYS_IN_MONTH_def DAYS_BEFORE_MONTH_def days_in_month_def
  days_before_year_def days_before_month_def check_date_fields_def valid_date_def toordinal_def

lemmas iso_defs = parse_digits_def parse_isoformat_date_def parse2_def parse_fraction_def
  parse_hh_mm_ss_ff_def tz_ok_def parse_isoformat_time_def check_time_fields_def
  fromisoformat_str_def fromisoformat_def

lemmas classify_defs = is_eligible_for_resubmission_def reason_verdict_def
  retryable_reasons_def non_retryable_reasons_def mock_llm_classifier_def

lemmas normalize_defs = normalize_record_def normalize_date_def dict_get_def dict_get_default_def
  py_or_def isoformat_def zero_pad_def show_nat.simps

section \<open>Dates written by \<open>isoformat\<close> are read back\<close>

lemma digit_cases: "n < 10 \<Longrightarrow> n \<in> {0, 1, 2, 3, 4, 5, 6, 7, 8, 9 :: nat}"
  by (simp add: insert_iff) arith

lemma digit_char_ok: "n < 10 \<Longrightarrow> is_digit (digit_char n) \<and> digit_val (digit_char n) = n"
  using digit_cases [of n] by (auto simp: digit_char_def is_digit_def digit_val_def)

lemma digit_char_not_T: "n < 10 \<Longrightarrow> CHR ''T'' \<noteq> digit_char n"
  using digit_cases [of n] by (auto simp: digit_char_def)

lemma digit_char_0: "digit_char 0 = CHR ''0''"
  by (simp add: digit_char_def)

lemma show_nat_1: "n < 10 \<Longrightarrow> show_nat n = [digit_char n]"
  by (simp add: show_nat.simps)

lemma show_nat_2:
  "\<not> n < 10 \<Longrightarrow> n div 10 < 10 \<Longrightarrow> show_nat n = [digit_char (n div 10), digit_char (n mod 10)]"
  by (subst show_nat.simps) (simp add: show_nat_1)

lemma show_nat_3:
  "\<not> n div 10 < 10 \<Longrightarrow> n div 10 div 10 < 10 \<Longrightarrow>
   show_nat n = [digit_char (n div 10 div 10), digit_char (n div 10 mod 10), digit_char (n mod 10)]"
  by (subst show_nat.simps) (auto simp add: show_nat_2)

lemma show_nat_4:
  "\<not> n div 10 div 10 < 10 \<Longrightarrow> n div 10 div 10 div 10 < 10 \<Longrightarrow>
   show_nat n = [digit_char (n div 10 div 10 div 10), digit_char (n div 10 div 10 mod 10),
                 digit_char (n div 10 mod 10), digit_char (n mod 10)]"
  by (subst show_nat.simps) (auto simp add: show_nat_3)

lemma replicate_small: "replicate 3 x = [x, x, x]" "replicate 2 x = [x, x]"
  by (simp_all add: numeral_3_eq_3 numeral_2_eq_2)

lemma zero_pad_2:
  "n div 10 < 10 \<Longrightarrow> zero_pad 2 n = [digit_char (n div 10), digit_char (n mod 10)]"
  by (cases "n < 10") (simp_all add: zero_pad_def show_nat_1 show_nat_2 digit_char_0)

lemma zero_pad_4:
  assumes "n div 10 div 10 div 10 < 10"
  shows "zero_pad 4 n = [digit_char (n div 10 div 10 div 10), digit_char (n div 10 div 10 mod 10),
                         digit_char (n div 10 mod 10), digit_char (n mod 10)]"
proof -
  consider "n < 10" | "\<not> n < 10" "n div 10 < 10" | "\<not> n div 10 < 10" "n div 10 div 10 < 10"
    | "\<not> n div 10 div 10 < 10"
    by blast
  then show ?thesis
  proof cases
    case 1
    then show ?thesis by (simp add: zero_pad_def show_nat_1 digit_char_0 replicate_small)
  next
    case 2
    then show ?thesis by (simp add: zero_pad_def show_nat_2 digit_char_0 replicate_small)
  next
    case 3
    then show ?thesis by (simp add: zero_pad_def show_nat_3 digit_char_0)
  next
    case 4
    with assms show ?thesis by (simp add: zero_pad_def show_nat_4)
  qed
qed

lemma parse_digits_2:
  "a < 10 \<Longrightarrow> b < 10 \<Longrightarrow> parse_digits [digit_char a, digit_char b] = Some (10 * a + b)"
  by (simp add: parse_digits_def digit_char_ok)

lemma parse_digits_4:
  "a < 10 \<Longrightarrow> b < 10 \<Longrightarrow> c < 10 \<Longrightarrow> d < 10 \<Longrightarrow>
   parse_digits [digit_char a, digit_char b, digit_char c, digit_char d] =
     Some (10 * (10 * (10 * a + b) + c) + d)"
  by (simp add: parse_digits_def digit_char_ok)


lemma month_cases:
  "1 \<le> m \<Longrightarrow> m \<le> 12 \<Longrightarrow> m \<in> {1, 2, 3, 4, 5, 6, 7, 8, 9, 10, 11, 12 :: nat}"
  by (simp add: insert_iff) arith

lemma days_in_month_le: "1 \<le> m \<Longrightarrow> m \<le> 12 \<Longrightarrow> days_in_month y m \<le> 31"
  using month_cases [of m] by (auto simp: days_in_month_def DAYS_IN_MONTH_def)

lemma valid_date_bounds:
  assumes "valid_date dt"
  shows "1 \<le> year dt" "year dt \<le> 9999" "1 \<le> month dt" "month dt \<le> 12"
    "1 \<le> day dt" "day dt \<le> 31"
proof -
  from assms have m: "1 \<le> month dt" "month dt \<le> 12"
    and d: "1 \<le> day dt" "day dt \<le> days_in_month (year dt) (month dt)"
    and y: "1 \<le> year dt" "year dt \<le> 9999"
    by (simp_all add: valid_date_def check_date_fields_def)
  from d days_in_month_le [OF m, of "year dt"] show "day dt \<le> 31"
    by simp
  show "1 \<le> year dt" "year dt \<le> 9999" "1 \<le> month dt" "month dt \<le> 12" "1 \<le> day dt"
    using m d y by simp_all
qed

lemma isoformat_chars:
  assumes "valid_date dt"
  shows "isoformat dt =
    [digit_char (year dt div 10 div 10 div 10), digit_char (year dt div 10 div 10 mod 10),
     digit_char (year dt div 10 mod 10), digit_char (year dt mod 10), CHR ''-'',
     digit_char (month dt div 10), digit_char (month dt mod 10), CHR ''-'',
     digit_char (day dt div 10), digit_char (day dt mod 10)]"
proof -
  note b = valid_date_bounds [OF assms]
  from b have "year dt div 10 div 10 div 10 < 10" "month dt div 10 < 10" "day dt div 10 < 10"
    by simp_all
  then show ?thesis
    by (simp add: isoformat_def zero_pad_4 zero_pad_2)
qed

lemma isoformat_no_T:
  assumes "valid_date dt"
  shows "CHR ''T'' \<notin> set (isoformat dt)"
proof -
  note b = valid_date_bounds [OF assms]
  from b have "year dt div 10 div 10 div 10 < 10" "month dt div 10 < 10" "day dt div 10 < 10"
    by simp_all
  then show ?thesis
    by (simp add: isoformat_chars [OF assms] digit_char_not_T)
qed

lemma isoformat_fields:
  assumes "valid_date dt"
  shows "parse_digits [digit_char (year dt div 10 div 10 div 10), digit_char (year dt div 10 div 10 mod 10),
     digit_char (year dt div 10 mod 10), digit_char (year dt mod 10)] = Some (year dt)"
    and "parse_digits [digit_char (month dt div 10), digit_char (month dt mod 10)] = Some (month dt)"
    and "parse_digits [digit_char (day dt div 10), digit_char (day dt mod 10)] = Some (day dt)"
proof -
  note b = valid_date_bounds [OF assms]
  from b have "year dt div 10 div 10 div 10 < 10" "month dt div 10 < 10" "day dt div 10 < 10"
    by simp_all
  then show "parse_digits [digit_char (year dt div 10 div 10 div 10), digit_char (year dt div 10 div 10 mod 10),
     digit_char (year dt div 10 mod 10), digit_char (year dt mod 10)] = Some (year dt)"
    and "parse_digits [digit_char (month dt div 10), digit_char (month dt mod 10)] = Some (month dt)"
    and "parse_digits [digit_char (day dt div 10), digit_char (day dt mod 10)] = Some (day dt)"
    by (simp_all add: parse_digits_4 parse_digits_2)
qed

lemma fromisoformat_isoformat:
  assumes "valid_date dt"
  shows "fromisoformat_str (isoformat dt) = Some dt"
proof -
  have "parse_isoformat_date (isoformat dt) = Some (year dt, month dt, day dt)"
    by (simp add: isoformat_chars [OF assms] parse_isoformat_date_def isoformat_fields [OF assms])
  moreover have "length (isoformat dt) = 10"
    by (simp add: isoformat_chars [OF assms])
  ultimately show ?thesis
    using assms by (simp add: fromisoformat_str_def valid_date_def check_time_fields_def)
qed


lemma fromisoformat_valid: "fromisoformat_str s = Some dt \<Longrightarrow> valid_date dt"
  by (auto simp: fromisoformat_str_def valid_date_def split: option.splits if_splits)

lemma strptime_valid: "strptime_ymd s = Some dt \<Longrightarrow> valid_date dt"
  by (auto simp: strptime_ymd_def valid_date_def split: list.splits if_splits)

lemma digit_char_eq:
  assumes "n < 10"
  shows "digit_char n = CHR ''0'' \<longleftrightarrow> n = 0" "digit_char n = CHR ''1'' \<longleftrightarrow> n = 1"
    "digit_char n = CHR ''2'' \<longleftrightarrow> n = 2" "digit_char n = CHR ''3'' \<longleftrightarrow> n = 3"
    "digit_char n \<noteq> CHR '' ''"
  using digit_cases [OF assms] by (auto simp: digit_char_def)

lemmas digit_facts = match_month_def match_day_def nonzero_digit_def digit_char_ok digit_char_eq

lemma match_month_digits:
  assumes "u < 10" and "t = 0 \<and> u \<noteq> 0 \<or> t = 1 \<and> (u = 0 \<or> u = 1 \<or> u = 2)"
  shows "\<exists>xs. match_month (digit_char t # digit_char u # r) = (10 * t + u, r) # xs"
proof -
  from assms(2) consider "t = 0" "u \<noteq> 0" | "t = 1" "u = 0 \<or> u = 1 \<or> u = 2"
    by blast
  then show ?thesis
  proof cases
    case 1
    with assms(1) show ?thesis by (simp add: digit_facts)
  next
    case 2
    with assms(1) show ?thesis by (simp add: digit_facts)
  qed
qed

lemma match_day_digits:
  assumes "u < 10" and "t = 0 \<and> u \<noteq> 0 \<or> t = 1 \<or> t = 2 \<or> t = 3 \<and> (u = 0 \<or> u = 1)"
  shows "\<exists>xs. match_day [digit_char t, digit_char u] = (10 * t + u, []) # xs"
proof -
  from assms(2) consider "t = 0" "u \<noteq> 0" | "t = 1" | "t = 2" | "t = 3" "u = 0 \<or> u = 1"
    by blast
  then show ?thesis
  proof cases
    case 1
    with assms(1) show ?thesis by (simp add: digit_facts)
  next
    case 2
    with assms(1) show ?thesis by (simp add: digit_facts)
  next
    case 3
    with assms(1) show ?thesis by (simp add: digit_facts)
  next
    case 4
    with assms(1) show ?thesis by (simp add: digit_facts)
  qed
qed


lemma match_month_pad:
  assumes "1 \<le> m" and "m \<le> 12"
  shows "\<exists>xs. match_month (digit_char (m div 10) # digit_char (m mod 10) # r) = (m, r) # xs"
proof -
  define t u where "t = m div 10" and "u = m mod 10"
  have m: "m = 10 * t + u" and u: "u < 10"
    by (simp_all add: t_def u_def)
  from assms have "t = 0 \<and> u \<noteq> 0 \<or> t = 1 \<and> (u = 0 \<or> u = 1 \<or> u = 2)"
    unfolding m using u by linarith
  with u have "\<exists>xs. match_month (digit_char t # digit_char u # r) = (10 * t + u, r) # xs"
    by (rule match_month_digits)
  then show ?thesis
    unfolding m [symmetric] by (simp add: t_def u_def)
qed

lemma match_day_pad:
  assumes "1 \<le> d" and "d \<le> 31"
  shows "\<exists>xs. match_day [digit_char (d div 10), digit_char (d mod 10)] = (d, []) # xs"
proof -
  define t u where "t = d div 10" and "u = d mod 10"
  have d: "d = 10 * t + u" and u: "u < 10"
    by (simp_all add: t_def u_def)
  from assms have "t = 0 \<and> u \<noteq> 0 \<or> t = 1 \<or> t = 2 \<or> t = 3 \<and> (u = 0 \<or> u = 1)"
    unfolding d using u by linarith
  with u have "\<exists>xs. match_day [digit_char t, digit_char u] = (10 * t + u, []) # xs"
    by (rule match_day_digits)
  then show ?thesis
    unfolding d [symmetric] by (simp add: t_def u_def)
qed

lemma strptime_isoformat:
  assumes "valid_date dt"
  shows "strptime_ymd (isoformat dt) = Some dt"
proof -
  note b = valid_date_bounds [OF assms]
  obtain xs where m: "match_month (digit_char (month dt div 10) # digit_char (month dt mod 10) #
      [CHR ''-'', digit_char (day dt div 10), digit_char (day dt mod 10)]) =
      (month dt, [CHR ''-'', digit_char (day dt div 10), digit_char (day dt mod 10)]) # xs"
    using match_month_pad [OF b(3,4)] by blast
  obtain ys where d: "match_day [digit_char (day dt div 10), digit_char (day dt mod 10)] = (day dt, []) # ys"
    using match_day_pad [OF b(5,6)] by blast
  have "\<exists>zs. strptime_matches (isoformat dt) = ((year dt, month dt, day dt), []) # zs"
    by (simp add: strptime_matches_def isoformat_chars [OF assms] isoformat_fields [OF assms]
        expect_dash_def m d)
  then show ?thesis
    using assms by (auto simp: strptime_ymd_def valid_date_def)
qed

section \<open>The rule cascade\<close>

lemma fromisoformat_not_None: "fromisoformat v = Inr d \<Longrightarrow> v \<noteq> PNone"
  by (auto simp: fromisoformat_def)

text \<open>
  Claim C4. The rules are tried in the order status, patient id, submitted date, date
  window, and the first that applies gives the verdict: a status other than
  \<^verbatim>\<open>denied\<close> gives "Status not denied"; then the patient id \<^verbatim>\<open>unknown\<close> gives
  "Patient ID is null"; then a null date gives "Invalid submitted date"; then, with
  \<open>days_ago\<close> the difference in days between the reference date and the submitted
  date, \<open>days_ago \<le> 7\<close> (7 included) gives "Submitted less than or equal to 7 days
  ago", and from 8 days on the verdict is that of the denial reason.
\<close>

theorem cascade_order:
  "(status c \<noteq> PStr ''denied'' \<longrightarrow>
      is_eligible_for_resubmission c today = Inr (False, PStr ''Status not denied'')) \<and>
   (status c = PStr ''denied'' \<and> patient_id c = PStr ''unknown'' \<longrightarrow>
      is_eligible_for_resubmission c today = Inr (False, PStr ''Patient ID is null'')) \<and>
   (status c = PStr ''denied'' \<and> patient_id c \<noteq> PStr ''unknown'' \<and> submitted_at c = PNone \<longrightarrow>
      is_eligible_for_resubmission c today = Inr (False, PStr ''Invalid submitted date'')) \<and>
   (status c = PStr ''denied'' \<and> patient_id c \<noteq> PStr ''unknown'' \<and>
    fromisoformat (submitted_at c) = Inr d \<and> toordinal today - toordinal d \<le> 7 \<longrightarrow>
      is_eligible_for_resubmission c today =
        Inr (False, PStr ''Submitted less than or equal to 7 days ago'')) \<and>
   (status c = PStr ''denied'' \<and> patient_id c \<noteq> PStr ''unknown'' \<and>
    fromisoformat (submitted_at c) = Inr d \<and> toordinal today - toordinal d > 7 \<longrightarrow>
      is_eligible_for_resubmission c today = Inr (reason_verdict (denial_reason c)))"
  using fromisoformat_not_None [of "submitted_at c" d]
  by (simp add: is_eligible_for_resubmission_def Let_def)

lemma sample_0723: "fromisoformat (PStr ''2025-07-23'') = Inr \<lparr>year = 2025, month = 7, day = 23\<rparr>"
  by (simp add: iso_defs text_defs date_defs)

lemma sample_0722: "fromisoformat (PStr ''2025-07-22'') = Inr \<lparr>year = 2025, month = 7, day = 22\<rparr>"
  by (simp add: iso_defs text_defs date_defs)

lemma days_0723: "toordinal today_default - toordinal \<lparr>year = 2025, month = 7, day = 23\<rparr> = 7"
  by (simp add: today_default_def date_defs)

lemma days_0722: "toordinal today_default - toordinal \<lparr>year = 2025, month = 7, day = 22\<rparr> = 8"
  by (simp add: today_default_def date_defs)

theorem cascade_order_witness:
  "is_eligible_for_resubmission (sample_claim ''approved'' ''unknown'' PNone (PStr ''Missing modifier'')) today_default
     = Inr (False, PStr ''Status not denied'') \<and>
   is_eligible_for_resubmission (sample_claim ''denied'' ''unknown'' PNone (PStr ''Missing modifier'')) today_default
     = Inr (False, PStr ''Patient ID is null'') \<and>
   is_eligible_for_resubmission (sample_claim ''denied'' ''P001'' PNone (PStr ''Missing modifier'')) today_default
     = Inr (False, PStr ''Invalid submitted date'') \<and>
   is_eligible_for_resubmission (sample_claim ''denied'' ''P001'' (PStr ''2025-07-23'') (PStr ''Missing modifier'')) today_default
     = Inr (False, PStr ''Submitted less than or equal to 7 days ago'') \<and>
   is_eligible_for_resubmission (sample_claim ''denied'' ''P001'' (PStr ''2025-07-22'') (PStr ''Missing modifier'')) today_default
     = Inr (True, PStr ''Missing modifier'')"
  using
    cascade_order [of "sample_claim ''approved'' ''unknown'' PNone (PStr ''Missing modifier'')" today_default today_default]
    cascade_order [of "sample_claim ''denied'' ''unknown'' PNone (PStr ''Missing modifier'')" today_default today_default]
    cascade_order [of "sample_claim ''denied'' ''P001'' PNone (PStr ''Missing modifier'')" today_default today_default]
    cascade_order [of "sample_claim ''denied'' ''P001'' (PStr ''2025-07-23'') (PStr ''Missing modifier'')" today_default
      "\<lparr>year = 2025, month = 7, day = 23\<rparr>"]
    cascade_order [of "sample_claim ''denied'' ''P001'' (PStr ''2025-07-22'') (PStr ''Missing modifier'')" today_default
      "\<lparr>year = 2025, month = 7, day = 22\<rparr>"]
  by (simp add: sample_claim_def sample_0723 sample_0722 days_0723 days_0722 reason_verdict_def retryable_reasons_def)

lemma sample_0701: "fromisoformat (PStr ''2025-07-01'') = Inr \<lparr>year = 2025, month = 7, day = 1\<rparr>"
  by (simp add: iso_defs text_defs date_defs)

lemma days_0701: "toordinal today_default - toordinal \<lparr>year = 2025, month = 7, day = 1\<rparr> > 7"
  by (simp add: today_default_def date_defs)

lemma passes_rules:
  assumes "status c = PStr ''denied''" and "patient_id c \<noteq> PStr ''unknown''"
    and "fromisoformat (submitted_at c) = Inr d" and "toordinal today - toordinal d > 7"
  shows "is_eligible_for_resubmission c today = Inr (reason_verdict (denial_reason c))"
  using assms fromisoformat_not_None [of "submitted_at c" d]
  by (simp add: is_eligible_for_resubmission_def Let_def)

section \<open>Classification by denial reason\<close>

text \<open>
  Claim C5. A claim with status \<^verbatim>\<open>denied\<close>, a patient id other than \<^verbatim>\<open>unknown\<close>
  and a submitted date that parses and lies more than 7 days before the reference date
  is eligible, with the denial reason as the reason, when the denial reason is
  "Missing modifier", "Incorrect NPI" or "Prior auth required"; it is ineligible, with
  the denial reason as the reason, when the denial reason is "Authorization expired"
  or "Incorrect provider type".
\<close>

theorem fixed_reason_sets:
  assumes "status c = PStr ''denied''" and "patient_id c \<noteq> PStr ''unknown''"
    and "fromisoformat (submitted_at c) = Inr d" and "toordinal today - toordinal d > 7"
  shows "(r \<in> {''Missing modifier'', ''Incorrect NPI'', ''Prior auth required''} \<and>
          denial_reason c = PStr r \<longrightarrow>
            is_eligible_for_resubmission c today = Inr (True, PStr r)) \<and>
         (r \<in> {''Authorization expired'', ''Incorrect provider type''} \<and>
          denial_reason c = PStr r \<longrightarrow>
            is_eligible_for_resubmission c today = Inr (False, PStr r))"
  unfolding passes_rules [OF assms]
  by (auto simp: reason_verdict_def retryable_reasons_def non_retryable_reasons_def)

theorem fixed_reason_sets_witness:
  "is_eligible_for_resubmission
     (sample_claim ''denied'' ''P001'' (PStr ''2025-07-01'') (PStr ''Missing modifier'')) today_default
     = Inr (True, PStr ''Missing modifier'') \<and>
   is_eligible_for_resubmission
     (sample_claim ''denied'' ''P001'' (PStr ''2025-07-01'') (PStr ''Authorization expired'')) today_default
     = Inr (False, PStr ''Authorization expired'')"
proof -
  let ?d = "\<lparr>year = 2025, month = 7, day = 1\<rparr>"
  let ?c = "\<lambda>x. sample_claim ''denied'' ''P001'' (PStr ''2025-07-01'') (PStr x)"
  have a: "status (?c x) = PStr ''denied''"
    and b: "patient_id (?c x) \<noteq> PStr ''unknown''"
    and c: "fromisoformat (submitted_at (?c x)) = Inr ?d"
    and e: "denial_reason (?c x) = PStr x" for x
    by (simp_all add: sample_claim_def sample_0701)
  show ?thesis
    using fixed_reason_sets [where c = "?c ''Missing modifier''" and r = "''Missing modifier''",
        OF a b c days_0701]
      fixed_reason_sets [where c = "?c ''Authorization expired''" and r = "''Authorization expired''",
        OF a b c days_0701]
    by (simp add: e)
qed

text \<open>
  Claim C8. Two claims with the same status, patient id, submitted date and denial
  reason get the same result for the same reference date, whatever their claim id,
  procedure code and source system.
\<close>

theorem verdict_depends_on_four_fields:
  assumes "status c1 = status c2" and "patient_id c1 = patient_id c2"
    and "submitted_at c1 = submitted_at c2" and "denial_reason c1 = denial_reason c2"
  shows "is_eligible_for_resubmission c1 today = is_eligible_for_resubmission c2 today"
  unfolding is_eligible_for_resubmission_def assms ..

theorem verdict_depends_on_four_fields_witness:
  "is_eligible_for_resubmission
     (sample_claim ''denied'' ''P001'' (PStr ''2025-07-01'') (PStr ''Missing modifier'')) today_default =
   is_eligible_for_resubmission
     ((sample_claim ''denied'' ''P001'' (PStr ''2025-07-01'') (PStr ''Missing modifier''))
        \<lparr>claim_id := PStr ''B988'', procedure_code := PStr ''99214'', source_system := ''beta''\<rparr>)
     today_default"
  using verdict_depends_on_four_fields
    [of "sample_claim ''denied'' ''P001'' (PStr ''2025-07-01'') (PStr ''Missing modifier'')"
        "(sample_claim ''denied'' ''P001'' (PStr ''2025-07-01'') (PStr ''Missing modifier''))
           \<lparr>claim_id := PStr ''B988'', procedure_code := PStr ''99214'', source_system := ''beta''\<rparr>"
        today_default]
  by (simp add: sample_claim_def)

text \<open>
  Claim C10. A claim that passes rules 1 to 4 and whose denial reason is the text
  \<^verbatim>\<open>unknown\<close> is ineligible, with reason "Inferred non-retryable: unknown".
\<close>

theorem unknown_reason_not_retryable:
  assumes "status c = PStr ''denied''" and "patient_id c \<noteq> PStr ''unknown''"
    and "fromisoformat (submitted_at c) = Inr d" and "toordinal today - toordinal d > 7"
    and "denial_reason c = PStr ''unknown''"
  shows "is_eligible_for_resubmission c today = Inr (False, PStr ''Inferred non-retryable: unknown'')"
  unfolding passes_rules [OF assms(1-4)] assms(5)
  by (simp add: reason_verdict_def retryable_reasons_def non_retryable_reasons_def
      mock_llm_classifier_def text_defs)

theorem unknown_reason_not_retryable_witness:
  "is_eligible_for_resubmission
     (sample_claim ''denied'' ''P001'' (PStr ''2025-07-01'') (PStr ''unknown'')) today_default
     = Inr (False, PStr ''Inferred non-retryable: unknown'')"
proof -
  let ?c = "sample_claim ''denied'' ''P001'' (PStr ''2025-07-01'') (PStr ''unknown'')"
  let ?d = "\<lparr>year = 2025, month = 7, day = 1\<rparr>"
  have "status ?c = PStr ''denied''" and "patient_id ?c \<noteq> PStr ''unknown''"
    and "fromisoformat (submitted_at ?c) = Inr ?d" and "toordinal today_default - toordinal ?d > 7"
    and "denial_reason ?c = PStr ''unknown''"
    by (simp_all add: sample_claim_def sample_0701 del: One_nat_def) (rule days_0701)
  then show ?thesis
    by (rule unknown_reason_not_retryable)
qed

section \<open>Field resolution\<close>

text \<open>
  Claim C9. When the raw record has no \<^verbatim>\<open>procedure_code\<close> key, or a false value
  under it, the procedure code of the normalized claim is \<^verbatim>\<open>unknown\<close>; the key
  \<^verbatim>\<open>code\<close> of the beta source is not read.
\<close>

theorem procedure_code_ignores_code_alias:
  assumes "\<not> truthy (dict_get r ''procedure_code'')"
  shows "procedure_code (fst (normalize_record r source)) = PStr ''unknown''"
  using assms
  by (simp add: normalize_record_def Let_def py_or_def split: prod.splits)
    (simp add: text_defs)

theorem procedure_code_ignores_code_alias_witness:
  "dict_get B987 ''code'' = PStr ''99213'' \<and>
   procedure_code (fst (normalize_record B987 ''beta'')) = PStr ''unknown''"
proof -
  have "\<not> truthy (dict_get B987 ''procedure_code'')"
    by (simp add: B987_def dict_get_def)
  from procedure_code_ignores_code_alias [OF this, of "''beta''"]
  show ?thesis
    by (simp add: B987_def dict_get_def)
qed

section \<open>The classifier is total on well-formed claims\<close>

lemma reason_verdict_str: "\<exists>b r. reason_verdict v = (b, PStr r)"
proof -
  have "v \<in> set retryable_reasons \<or> v \<in> set non_retryable_reasons \<Longrightarrow> \<exists>r. v = PStr r"
    by (auto simp: retryable_reasons_def non_retryable_reasons_def)
  then show ?thesis
    unfolding reason_verdict_def
    by (cases "v \<in> set retryable_reasons"; cases "v \<in> set non_retryable_reasons";
        cases "mock_llm_classifier v") auto
qed

lemma reason_verdict_unknown:
  "reason_verdict (PStr ''unknown'') = (False, PStr ''Inferred non-retryable: unknown'')"
  by (simp add: reason_verdict_def retryable_reasons_def non_retryable_reasons_def
      mock_llm_classifier_def text_defs)

text \<open>
  Claim C2. On a well-formed claim, one whose submitted date is null or the ISO text of
  an existing calendar date, the classifier returns a verdict, a flag and a reason
  text, for every reference date: it raises no error. Absent data gives an ineligible
  verdict: the flag is false when the status is not \<^verbatim>\<open>denied\<close> (as for the
  substitute \<^verbatim>\<open>unknown\<close>), when the patient id is \<^verbatim>\<open>unknown\<close>, when the submitted
  date is null, and when the denial reason is \<^verbatim>\<open>unknown\<close>.
\<close>

theorem classify_total:
  assumes "submitted_at c = PNone \<or> submitted_at c = PStr (isoformat d) \<and> valid_date d"
  shows "\<exists>b r. is_eligible_for_resubmission c today = Inr (b, PStr r) \<and>
           (status c \<noteq> PStr ''denied'' \<or> patient_id c = PStr ''unknown'' \<or>
            submitted_at c = PNone \<or> denial_reason c = PStr ''unknown'' \<longrightarrow> \<not> b)"
proof -
  consider (status) "status c \<noteq> PStr ''denied''"
    | (patient) "status c = PStr ''denied''" "patient_id c = PStr ''unknown''"
    | (nodate) "status c = PStr ''denied''" "patient_id c \<noteq> PStr ''unknown''" "submitted_at c = PNone"
    | (dated) "status c = PStr ''denied''" "patient_id c \<noteq> PStr ''unknown''"
        "submitted_at c = PStr (isoformat d)" "valid_date d"
    using assms by blast
  then show ?thesis
  proof cases
    case status
    then have "is_eligible_for_resubmission c today = Inr (False, PStr ''Status not denied'')"
      by (simp add: is_eligible_for_resubmission_def)
    then show ?thesis by blast
  next
    case patient
    then have "is_eligible_for_resubmission c today = Inr (False, PStr ''Patient ID is null'')"
      by (simp add: is_eligible_for_resubmission_def)
    then show ?thesis by blast
  next
    case nodate
    then have "is_eligible_for_resubmission c today = Inr (False, PStr ''Invalid submitted date'')"
      by (simp add: is_eligible_for_resubmission_def)
    then show ?thesis by blast
  next
    case dated
    then have parsed: "fromisoformat (submitted_at c) = Inr d"
      by (simp add: fromisoformat_def fromisoformat_isoformat)
    show ?thesis
    proof (cases "toordinal today - toordinal d \<le> 7")
      case True
      with dated parsed have "is_eligible_for_resubmission c today =
          Inr (False, PStr ''Submitted less than or equal to 7 days ago'')"
        by (simp add: is_eligible_for_resubmission_def)
      then show ?thesis by blast
    next
      case False
      then have "toordinal today - toordinal d > 7"
        by simp
      with dated(1,2) parsed
      have res: "is_eligible_for_resubmission c today = Inr (reason_verdict (denial_reason c))"
        by (rule passes_rules)
      obtain b r where rv: "reason_verdict (denial_reason c) = (b, PStr r)"
        using reason_verdict_str by blast
      have "denial_reason c = PStr ''unknown'' \<Longrightarrow> \<not> b"
        using rv by (simp add: reason_verdict_unknown)
      with dated res rv show ?thesis
        by auto
    qed
  qed
qed

lemma valid_0722: "valid_date \<lparr>year = 2025, month = 7, day = 22\<rparr>"
  by (simp add: date_defs)

lemma isoformat_0722: "isoformat \<lparr>year = 2025, month = 7, day = 22\<rparr> = ''2025-07-22''"
  by (simp add: isoformat_chars [OF valid_0722] digit_char_def)

theorem classify_total_witness:
  "(\<exists>r. is_eligible_for_resubmission
      (sample_claim ''denied'' ''P001'' PNone (PStr ''Missing modifier'')) today_default
        = Inr (False, PStr r)) \<and>
   (\<exists>b r. is_eligible_for_resubmission
      (sample_claim ''denied'' ''P001'' (PStr ''2025-07-22'') (PStr ''Missing modifier'')) today_default
        = Inr (b, PStr r))"
proof -
  let ?d = "\<lparr>year = 2025, month = 7, day = 22\<rparr>"
  let ?c1 = "sample_claim ''denied'' ''P001'' PNone (PStr ''Missing modifier'')"
  let ?c2 = "sample_claim ''denied'' ''P001'' (PStr ''2025-07-22'') (PStr ''Missing modifier'')"
  have h1: "submitted_at ?c1 = PNone \<or> submitted_at ?c1 = PStr (isoformat ?d) \<and> valid_date ?d"
    by (simp add: sample_claim_def)
  have h2: "submitted_at ?c2 = PNone \<or> submitted_at ?c2 = PStr (isoformat ?d) \<and> valid_date ?d"
    by (simp add: sample_claim_def isoformat_0722 valid_0722)
  have n: "submitted_at ?c1 = PNone"
    by (simp add: sample_claim_def)
  from classify_total [OF h1, of today_default] n
  obtain b r where "is_eligible_for_resubmission ?c1 today_default = Inr (b, PStr r)" and "\<not> b"
    by blast
  then have "\<exists>r. is_eligible_for_resubmission ?c1 today_default = Inr (False, PStr r)"
    by auto
  moreover from classify_total [OF h2, of today_default]
  have "\<exists>b r. is_eligible_for_resubmission ?c2 today_default = Inr (b, PStr r)"
    by blast
  ultimately show ?thesis
    by blast
qed

section \<open>Absent and null fields\<close>

lemma B990_normalized:
  "normalize_record B990 ''beta'' =
     (\<lparr>claim_id = PStr ''B990'', patient_id = PStr ''None'', procedure_code = PStr ''unknown'',
       denial_reason = PStr ''incorrect procedure'', status = PStr ''denied'',
       submitted_at = PStr ''2025-07-01'', source_system = ''beta''\<rparr>, [])"
  by (simp add: B990_def normalize_defs text_defs iso_defs date_defs Let_def)

lemma absent_patient_unknown:
  assumes "map_of r ''patient_id'' = None" and "map_of r ''member'' = None"
  shows "patient_id (fst (normalize_record r source)) = PStr ''unknown''"
  using assms
  by (simp add: normalize_record_def Let_def dict_get_def dict_get_default_def py_or_def
      split: prod.splits) (simp add: text_defs)

text \<open>
  Claim C1. A record with no \<^verbatim>\<open>patient_id\<close> key and with \<^verbatim>\<open>member\<close> missing or
  null should get the patient id \<^verbatim>\<open>unknown\<close> and, when denied, the verdict "Patient ID
  is null". With both keys missing it does (\<open>absent_patient_unknown\<close> and the second
  rule of the cascade). Record B990 of the embedded data has \<^verbatim>\<open>member\<close> bound to null:
  its patient id becomes the text \<^verbatim>\<open>None\<close> and the claim goes on to the denial reason.
\<close>

theorem null_member_patient_id:
  "map_of B990 ''patient_id'' = None \<and> map_of B990 ''member'' = Some PNone \<and>
   patient_id (fst (normalize_record B990 ''beta'')) = PStr ''None'' \<and>
   is_eligible_for_resubmission (fst (normalize_record B990 ''beta'')) today_default =
     Inr (False, PStr ''Inferred non-retryable: incorrect procedure'')"
  by (simp add: B990_normalized is_eligible_for_resubmission_def sample_0701 Let_def
      reason_verdict_def retryable_reasons_def non_retryable_reasons_def mock_llm_classifier_def
      text_defs today_default_def date_defs)
    (simp add: B990_def)

text \<open>
  Claim C3. The submitted date of a normalized claim should be an ISO date text or
  null. A source date that is not a string is left as it is: for an empty CSV cell the
  claim carries \<^verbatim>\<open>nan\<close>, no warning is logged, and the classifier raises
  \<^verbatim>\<open>TypeError\<close> on it.
\<close>

theorem nan_date_passes_through:
  "normalize_record A_no_date ''alpha'' =
     (\<lparr>claim_id = PStr ''A128'', patient_id = PStr ''P005'', procedure_code = PStr ''99213'',
       denial_reason = PStr ''Missing modifier'', status = PStr ''denied'',
       submitted_at = PNaN, source_system = ''alpha''\<rparr>, []) \<and>
   is_eligible_for_resubmission (fst (normalize_record A_no_date ''alpha'')) today_default =
     Inl TypeError"
  by (simp add: A_no_date_def normalize_defs text_defs Let_def is_eligible_for_resubmission_def
      fromisoformat_def)

section \<open>The fallback heuristic\<close>

text \<open>
  Claim C6 says that a reason containing "not billable" is non-retryable and one
  containing "form incomplete" is retryable. The classifier tests "incorrect procedure"
  first, then "form incomplete", then "not billable": a reason with both of the last
  two is retryable.
\<close>

theorem fallback_heuristic_counterexample:
  "str_contains ''not billable'' (lower ''form incomplete, not billable'') \<and>
   is_eligible_for_resubmission
     (sample_claim ''denied'' ''P001'' (PStr ''2025-07-01'') (PStr ''form incomplete, not billable''))
     today_default =
       Inr (True, PStr ''Inferred retryable: form incomplete, not billable'')"
proof -
  let ?c = "sample_claim ''denied'' ''P001'' (PStr ''2025-07-01'') (PStr ''form incomplete, not billable'')"
  have "status ?c = PStr ''denied''" and "patient_id ?c \<noteq> PStr ''unknown''"
    and "fromisoformat (submitted_at ?c) = Inr \<lparr>year = 2025, month = 7, day = 1\<rparr>"
    by (simp_all add: sample_claim_def sample_0701)
  then have "is_eligible_for_resubmission ?c today_default = Inr (reason_verdict (denial_reason ?c))"
    using days_0701 by (rule passes_rules)
  then show ?thesis
    by (simp add: sample_claim_def reason_verdict_def retryable_reasons_def
        non_retryable_reasons_def mock_llm_classifier_def text_defs)
qed

text \<open>
  Claim C6, amended. For a claim that passes rules 1 to 4 and whose denial reason is in
  neither fixed set, the lower-cased reason is tested in this order: containing
  "incorrect procedure" gives non-retryable; otherwise containing "form incomplete"
  gives retryable; otherwise non-retryable. A null reason gives non-retryable. The
  reason of the verdict is "Inferred retryable: " or "Inferred non-retryable: "
  followed by the reason as it was given.
\<close>

theorem fallback_heuristic:
  assumes "status c = PStr ''denied''" and "patient_id c \<noteq> PStr ''unknown''"
    and "fromisoformat (submitted_at c) = Inr d" and "toordinal today - toordinal d > 7"
  shows "(denial_reason c = PStr r \<and>
          r \<notin> {''Missing modifier'', ''Incorrect NPI'', ''Prior auth required'',
                ''Authorization expired'', ''Incorrect provider type''} \<longrightarrow>
            is_eligible_for_resubmission c today =
              (if str_contains ''incorrect procedure'' (lower r)
                 then Inr (False, PStr (''Inferred non-retryable: '' @ r))
               else if str_contains ''form incomplete'' (lower r)
                 then Inr (True, PStr (''Inferred retryable: '' @ r))
               else Inr (False, PStr (''Inferred non-retryable: '' @ r)))) \<and>
         (denial_reason c = PNone \<longrightarrow>
            is_eligible_for_resubmission c today =
              Inr (False, PStr ''Inferred non-retryable: None''))"
  unfolding passes_rules [OF assms]
  by (auto simp: reason_verdict_def retryable_reasons_def non_retryable_reasons_def
      mock_llm_classifier_def Let_def)

theorem fallback_heuristic_witness:
  "is_eligible_for_resubmission
     (sample_claim ''denied'' ''P001'' (PStr ''2025-07-01'') (PStr ''form incomplete'')) today_default =
       Inr (True, PStr ''Inferred retryable: form incomplete'') \<and>
   is_eligible_for_resubmission
     (sample_claim ''denied'' ''P001'' (PStr ''2025-07-01'') (PStr ''Incorrect Procedure'')) today_default =
       Inr (False, PStr ''Inferred non-retryable: Incorrect Procedure'') \<and>
   is_eligible_for_resubmission
     (sample_claim ''denied'' ''P001'' (PStr ''2025-07-01'') PNone) today_default =
       Inr (False, PStr ''Inferred non-retryable: None'')"
proof -
  let ?d = "\<lparr>year = 2025, month = 7, day = 1\<rparr>"
  let ?c = "\<lambda>x. sample_claim ''denied'' ''P001'' (PStr ''2025-07-01'') x"
  have a: "status (?c x) = PStr ''denied''"
    and b: "patient_id (?c x) \<noteq> PStr ''unknown''"
    and c: "fromisoformat (submitted_at (?c x)) = Inr ?d"
    and e: "denial_reason (?c x) = x" for x
    by (simp_all add: sample_claim_def sample_0701)
  show ?thesis
    using fallback_heuristic [where c = "?c (PStr ''form incomplete'')" and r = "''form incomplete''",
        OF a b c days_0701]
      fallback_heuristic [where c = "?c (PStr ''Incorrect Procedure'')" and r = "''Incorrect Procedure''",
        OF a b c days_0701]
      fallback_heuristic [where c = "?c PNone" and r = "''x''", OF a b c days_0701]
    by (simp add: e text_defs)
qed

section \<open>Normalizing twice\<close>

lemma dropWhile_fixed: "xs = [] \<or> \<not> P (hd xs) \<Longrightarrow> dropWhile P xs = xs"
  by (cases xs) auto

lemma last_dropWhile: "dropWhile P xs \<noteq> [] \<Longrightarrow> last (dropWhile P xs) = last xs"
  by (induction xs) (auto split: if_splits)

lemma strip_ends:
  "strip x = [] \<or> \<not> isspace (hd (strip x)) \<and> \<not> isspace (last (strip x))"
proof (cases "strip x = []")
  case True
  then show ?thesis by simp
next
  case False
  let ?y = "dropWhile isspace x"
  let ?w = "dropWhile isspace (rev ?y)"
  from False have w: "?w \<noteq> []"
    by (simp add: strip_def)
  have y: "?y \<noteq> []"
  proof
    assume "?y = []"
    then have "?w = []"
      by (simp only: rev.simps dropWhile.simps)
    with w show False ..
  qed
  have "\<not> isspace (hd ?w)"
    using w by (rule hd_dropWhile)
  then have l: "\<not> isspace (last (strip x))"
    using w by (simp add: strip_def last_rev)
  have "last ?w = last (rev ?y)"
    using w by (rule last_dropWhile)
  then have "hd (strip x) = hd ?y"
    using w y by (simp add: strip_def hd_rev last_rev)
  moreover have "\<not> isspace (hd ?y)"
    using y by (rule hd_dropWhile)
  ultimately show ?thesis
    using l by simp
qed

lemma strip_fixed:
  assumes "z = [] \<or> \<not> isspace (hd z) \<and> \<not> isspace (last z)"
  shows "strip z = z"
proof -
  from assms have "dropWhile isspace z = z"
    by (auto intro: dropWhile_fixed)
  moreover from assms have "dropWhile isspace (rev z) = rev z"
    by (auto intro!: dropWhile_fixed simp: hd_rev)
  ultimately show ?thesis
    by (simp add: strip_def)
qed

lemma strip_idem: "strip (strip x) = strip x"
  using strip_ends [of x] by (rule strip_fixed)

lemma set_strip: "set (strip x) \<subseteq> set x"
proof -
  have "set (dropWhile isspace (rev (dropWhile isspace x))) \<subseteq> set (rev (dropWhile isspace x))"
    by (rule set_dropWhileD [THEN subsetI])
  also have "\<dots> \<subseteq> set x"
    by (auto dest: set_dropWhileD)
  finally show ?thesis
    by (simp add: strip_def)
qed

lemma of_char_lower: "isupper c \<Longrightarrow> (of_char (lower_char c) :: nat) = of_char c + 32"
  apply (cases c)
  apply (simp add: lower_char_def isupper_def Let_def)
  apply (auto simp: of_bool_def split: if_splits)
  done

lemma lower_char_idem: "lower_char (lower_char c) = lower_char c"
  using of_char_lower [of c] by (auto simp add: lower_char_def isupper_def Let_def)

lemma lower_strip_lower: "lower (strip (lower s)) = strip (lower s)"
proof -
  have "lower_char c = c" if "c \<in> set (strip (lower s))" for c
  proof -
    from that set_strip have "c \<in> set (lower s)"
      by blast
    then show ?thesis
      by (auto simp: lower_def lower_char_idem)
  qed
  then show ?thesis
    unfolding lower_def [of "strip (lower s)"] by (simp add: map_idI)
qed

lemma strip_lower_fixed: "strip (lower (strip (lower s))) = strip (lower s)"
  by (simp add: lower_strip_lower strip_idem)

lemma strip_unknown: "strip ''unknown'' = ''unknown''" "strip (lower ''unknown'') = ''unknown''"
  by (simp_all add: text_defs)

lemma normalize_date_shape:
  "(\<exists>d. valid_date d \<and> fst (normalize_date cid v) = PStr (isoformat d)) \<or>
   (\<forall>s. fst (normalize_date cid v) \<noteq> PStr s)"
proof (cases v)
  case (PStr s)
  show ?thesis
  proof (cases "if CHR ''T'' \<in> set s then fromisoformat_str (replace_Z s) else strptime_ymd s")
    case None
    with PStr show ?thesis
      by (simp add: normalize_date_def)
  next
    case (Some d)
    then have "valid_date d"
      by (auto dest: fromisoformat_valid strptime_valid split: if_splits)
    with PStr Some show ?thesis
      by (auto simp: normalize_date_def)
  qed
qed (simp_all add: normalize_date_def)

lemma normalize_date_fixed:
  assumes "(\<exists>d. valid_date d \<and> v = PStr (isoformat d)) \<or> (\<forall>s. v \<noteq> PStr s)"
  shows "normalize_date cid v = (v, [])"
  using assms
proof
  assume "\<exists>d. valid_date d \<and> v = PStr (isoformat d)"
  then obtain d where "valid_date d" and "v = PStr (isoformat d)"
    by blast
  then show ?thesis
    by (simp add: normalize_date_def isoformat_no_T strptime_isoformat)
next
  assume "\<forall>s. v \<noteq> PStr s"
  then show ?thesis
    by (cases v) (simp_all add: normalize_date_def)
qed

lemma normalized_fields:
  fixes r :: raw_record and source :: string
  defines "c \<equiv> fst (normalize_record r source)"
  shows "\<exists>a. claim_id c = PStr a \<and> strip a = a"
    and "\<exists>a. patient_id c = PStr a \<and> strip a = a"
    and "\<exists>a. procedure_code c = PStr a \<and> strip a = a"
    and "\<exists>a. denial_reason c = PStr a \<and> strip a = a"
    and "\<exists>a. status c = PStr a \<and> strip (lower a) = a"
    and "(\<exists>d. valid_date d \<and> submitted_at c = PStr (isoformat d)) \<or>
         (\<forall>s. submitted_at c \<noteq> PStr s)"
    and "source_system c = source"
  unfolding c_def
  using normalize_date_shape
  by (simp_all add: normalize_record_def Let_def strip_idem strip_lower_fixed strip_unknown
      split: prod.splits) (metis fst_conv)+


lemma renormalize:
  assumes "claim_id c = PStr a1" "a1 \<noteq> []" "strip a1 = a1"
    and "patient_id c = PStr a2" "a2 \<noteq> []" "strip a2 = a2"
    and "procedure_code c = PStr a3" "a3 \<noteq> []" "strip a3 = a3"
    and "denial_reason c = PStr a4" "a4 \<noteq> []" "strip a4 = a4"
    and "status c = PStr a5" "strip (lower a5) = a5"
    and "(\<exists>d. valid_date d \<and> submitted_at c = PStr (isoformat d)) \<or>
         (\<forall>s. submitted_at c \<noteq> PStr s)"
    and "submitted_at c = PNone \<or> truthy (submitted_at c)"
  shows "normalize_record (claim_fields c) (source_system c) = (c, [])"
proof -
  have none: "normalize_date a1 PNone = (PNone, [])"
    by (simp add: normalize_date_def)
  have "normalize_date a1 (submitted_at c) = (submitted_at c, [])"
    using assms(15) by (rule normalize_date_fixed)
  then show ?thesis
    using assms(1-14,16)
    by (cases c) (auto simp: normalize_record_def claim_fields_def dict_get_def dict_get_default_def
        py_or_def none)
qed

lemma strptime_0710: "strptime_ymd ''2025-07-10'' = Some \<lparr>year = 2025, month = 7, day = 10\<rparr>"
proof -
  have m: "match_month ''07-10'' = [(7, ''-10'')]"
    by (simp add: match_month_def text_defs)
  have d: "match_day ''10'' = [(10, []), (1, ''0'')]"
    by (simp add: match_day_def text_defs)
  have "strptime_matches ''2025-07-10'' = [((2025, 7, 10), []), ((2025, 7, 1), ''0'')]"
    by (simp add: strptime_matches_def parse_digits_def expect_dash_def m d text_defs)
  then show ?thesis
    by (simp add: strptime_ymd_def date_defs)
qed

lemma isoformat_0710: "isoformat \<lparr>year = 2025, month = 7, day = 10\<rparr> = ''2025-07-10''"
  by (simp add: isoformat_def zero_pad_def show_nat.simps digit_char_def)

lemma date_0710: "normalize_date cid (PStr ''2025-07-10'') = (PStr ''2025-07-10'', [])"
  by (simp add: normalize_date_def strptime_0710 isoformat_0710)

lemma blank_id_normalized:
  "normalize_record blank_id_record ''beta'' =
     (\<lparr>claim_id = PStr [], patient_id = PStr ''P013'', procedure_code = PStr ''unknown'',
       denial_reason = PStr ''Missing modifier'', status = PStr ''denied'',
       submitted_at = PStr ''2025-07-10'', source_system = ''beta''\<rparr>, [])"
  by (simp add: blank_id_record_def normalize_defs text_defs iso_defs date_defs Let_def)

text \<open>
  Claim C7 says that normalizing the fields of a normalized claim gives the same
  values. A field that resolves to the empty text is taken as absent the second time: a
  blank claim id becomes the empty text, and then \<^verbatim>\<open>unknown\<close>.
\<close>

theorem normalize_idempotent_counterexample:
  "claim_id (fst (normalize_record blank_id_record ''beta'')) = PStr [] \<and>
   claim_id (fst (normalize_record (claim_fields (fst (normalize_record blank_id_record ''beta'')))
     ''beta'')) = PStr ''unknown''"
proof -
  let ?c = "\<lparr>claim_id = PStr [], patient_id = PStr ''P013'', procedure_code = PStr ''unknown'',
       denial_reason = PStr ''Missing modifier'', status = PStr ''denied'',
       submitted_at = PStr ''2025-07-10'', source_system = ''beta''\<rparr>"
  have first: "fst (normalize_record blank_id_record ''beta'') = ?c"
    by (simp add: blank_id_normalized)
  have "claim_id (fst (normalize_record (claim_fields ?c) ''beta'')) = PStr ''unknown''"
    by (simp add: claim_fields_def normalize_record_def dict_get_def dict_get_default_def
        py_or_def date_0710 text_defs Let_def)
  then show ?thesis
    unfolding first by simp
qed

text \<open>
  Claim C7, amended. Let \<open>c\<close> be the claim \<^verbatim>\<open>normalize_record\<close> gives for a raw record
  and a source tag. When the claim id, patient id, procedure code and denial reason of
  \<open>c\<close> are not empty and its submitted date is null or a string, normalizing the
  fields of \<open>c\<close> with the same tag gives \<open>c\<close> again, and logs no warning.
\<close>

theorem normalize_idempotent:
  fixes r :: raw_record and source :: string
  defines "c \<equiv> fst (normalize_record r source)"
  assumes "claim_id c \<noteq> PStr []" and "patient_id c \<noteq> PStr []"
    and "procedure_code c \<noteq> PStr []" and "denial_reason c \<noteq> PStr []"
    and "submitted_at c = PNone \<or> submitted_at c = PStr s"
  shows "normalize_record (claim_fields c) source = (c, [])"
proof -
  note f = normalized_fields [of r source, folded c_def]
  from f(1) assms(2) obtain a1 where a1: "claim_id c = PStr a1" "a1 \<noteq> []" "strip a1 = a1"
    by auto
  from f(2) assms(3) obtain a2 where a2: "patient_id c = PStr a2" "a2 \<noteq> []" "strip a2 = a2"
    by auto
  from f(3) assms(4) obtain a3 where a3: "procedure_code c = PStr a3" "a3 \<noteq> []" "strip a3 = a3"
    by auto
  from f(4) assms(5) obtain a4 where a4: "denial_reason c = PStr a4" "a4 \<noteq> []" "strip a4 = a4"
    by auto
  from f(5) obtain a5 where a5: "status c = PStr a5" "strip (lower a5) = a5"
    by auto
  have nonempty: "isoformat d \<noteq> []" if "valid_date d" for d
    using isoformat_chars [OF that] by simp
  have date: "submitted_at c = PNone \<or> truthy (submitted_at c)"
    using assms(6) f(6) nonempty by auto
  have "normalize_record (claim_fields c) (source_system c) = (c, [])"
    using a1 a2 a3 a4 a5 f(6) date by (rule renormalize)
  then show ?thesis
    by (simp add: f(7))
qed

lemma A124_normalized:
  "normalize_record A124 ''alpha'' =
     (\<lparr>claim_id = PStr ''A124'', patient_id = PStr ''P002'', procedure_code = PStr ''99214'',
       denial_reason = PStr ''Incorrect NPI'', status = PStr ''denied'',
       submitted_at = PStr ''2025-07-10'', source_system = ''alpha''\<rparr>, [])"
  by (simp add: A124_def normalize_record_def dict_get_def dict_get_default_def py_or_def
      date_0710 text_defs show_nat.simps Let_def)

theorem normalize_idempotent_witness:
  "normalize_record (claim_fields (fst (normalize_record A124 ''alpha''))) ''alpha'' =
     (\<lparr>claim_id = PStr ''A124'', patient_id = PStr ''P002'', procedure_code = PStr ''99214'',
       denial_reason = PStr ''Incorrect NPI'', status = PStr ''denied'',
       submitted_at = PStr ''2025-07-10'', source_system = ''alpha''\<rparr>, [])"
  using normalize_idempotent [of A124 "''alpha''" "''2025-07-10''"]
  by (simp add: A124_normalized)

end
